theory Spec2Isabelle
  imports Complex_Main "HOL-Library.Sublist" "HOL-Library.Multiset"
begin

section \<open>Python strings\<close>

text \<open>
  A Python \<open>str\<close> is modelled as a \<open>string\<close> of ASCII characters. The string
  methods the services use are written out: \<open>lower\<close>, \<open>strip\<close>, \<open>split\<close>,
  \<open>startswith\<close>, \<open>replace\<close> and the substring test \<open>k in s\<close>.
  The sentiment scores of the classifier are modelled as exact reals; the arithmetic of
  the scorer is modelled on doubles. A method keeps its name without the leading
  underscore: \<open>_fetch_articles\<close> is \<open>fetch_articles\<close>.
\<close>

definition char_lower :: "char \<Rightarrow> char" where
  "char_lower c =
     (let n = (of_char c :: nat) in if 65 \<le> n \<and> n \<le> 90 then char_of (n + 32) else c)"

definition lower :: "string \<Rightarrow> string" where
  "lower s = map char_lower s"

text \<open>The characters \<open>str.isspace\<close> accepts in the ASCII range.\<close>

definition is_space :: "char \<Rightarrow> bool" where
  "is_space c =
     (let n = (of_char c :: nat) in (9 \<le> n \<and> n \<le> 13) \<or> (28 \<le> n \<and> n \<le> 32))"

definition strip :: "string \<Rightarrow> string" where
  "strip s = rev (dropWhile is_space (rev (dropWhile is_space s)))"

text \<open>\<open>py_in k s\<close> is Python's \<open>k in s\<close> on strings: \<open>k\<close> occurs in \<open>s\<close> as a
  contiguous substring.\<close>

fun py_in :: "string \<Rightarrow> string \<Rightarrow> bool" where
  "py_in k [] = (k = [])"
| "py_in k (c # cs) = (prefix k (c # cs) \<or> py_in k cs)"

section \<open>OpinionClassifier\<close>

text \<open>
  An article is a dictionary. Its keys are the fields of the record; a key that is absent
  is \<open>None\<close>, so that \<open>article.get(key, default)\<close> is a case distinction. The dictionary
  key \<open>image\<close> is the field \<open>image_url\<close>. Keys the services never touch are the
  \<open>more\<close> part of the record.
\<close>

record article =
  title :: "string option"
  source :: "string option"
  political_bucket :: "string option"
  published_at :: "string option"
  content :: "string option"
  link :: "string option"
  image_url :: "string option"
  sentiment_score :: "real option"
  stance :: "string option"

definition get_str :: "string option \<Rightarrow> string \<Rightarrow> string" where
  "get_str v d = (case v of None \<Rightarrow> d | Some s \<Rightarrow> s)"

definition positive_words :: "string list" where
  "positive_words =
     [''excellent'', ''good'', ''great'', ''support'', ''liberty'', ''freedom'',
      ''save'', ''peace'', ''reforms'', ''modernization'', ''efficient'',
      ''necessary'', ''revival'', ''essential'', ''working'']"

definition negative_words :: "string list" where
  "negative_words =
     [''terrible'', ''bad'', ''worst'', ''hate'', ''fail'', ''crisis'', ''destroy'',
      ''culprit'', ''blocked'', ''abuses'', ''cheats'', ''terror'', ''crushed'',
      ''dictatorship'', ''threatening'', ''harm'', ''hurt'', ''kill'']"

text \<open>The two keyword loops of the fallback: one pass over a word list, the score
  threaded through.\<close>

fun add_positive :: "string \<Rightarrow> string list \<Rightarrow> real \<Rightarrow> real" where
  "add_positive t [] score = score"
| "add_positive t (w # ws) score =
     add_positive t ws (if py_in w t then score + 0.3 else score)"

fun sub_negative :: "string \<Rightarrow> string list \<Rightarrow> real \<Rightarrow> real" where
  "sub_negative t [] score = score"
| "sub_negative t (w # ws) score =
     sub_negative t ws (if py_in w t then score - 0.3 else score)"

text \<open>\<open>self.analyzer\<close> is the sentiment model when it was imported: the function from
  a text to the compound score of \<open>polarity_scores\<close>.\<close>

definition analyze_sentiment :: "(string \<Rightarrow> real) option \<Rightarrow> string \<Rightarrow> real" where
  "analyze_sentiment analyzer text =
     (case analyzer of
        Some polarity_compound \<Rightarrow> polarity_compound text
      | None \<Rightarrow>
          (let text_lower = lower text;
               score = sub_negative text_lower negative_words
                         (add_positive text_lower positive_words 0)
           in max (-1) (min 1 score)))"

definition determine_stance :: "real \<Rightarrow> string" where
  "determine_stance score =
     (if score \<ge> 0.15 then ''IN_FAVOR''
      else if score \<le> -0.15 then ''AGAINST''
      else ''NEUTRAL'')"

text \<open>The body of the loop of \<open>classify_articles\<close> on one dictionary.\<close>

definition classify_article :: "(string \<Rightarrow> real) option \<Rightarrow> 'a article_scheme \<Rightarrow> 'a article_scheme" where
  "classify_article analyzer a =
     (if political_bucket a = Some ''center''
      then a\<lparr>sentiment_score := Some 0, stance := Some ''NEUTRAL''\<rparr>
      else
        (let text_to_analyze = get_str (title a) '''' @ '' '' @ get_str (content a) '''';
             score = (if strip text_to_analyze = [] then 0
                      else analyze_sentiment analyzer text_to_analyze)
         in a\<lparr>sentiment_score := Some score, stance := Some (determine_stance score)\<rparr>))"

text \<open>
  The list passed to \<open>classify_articles\<close> is an object holding references to dictionary
  objects; the loop mutates the dictionaries in place. The store maps a reference to the
  object it denotes.
\<close>

type_synonym ref = nat

record 'a store =
  dict_at :: "ref \<Rightarrow> 'a article_scheme"
  list_at :: "ref \<Rightarrow> ref list"

fun classify_loop :: "(string \<Rightarrow> real) option \<Rightarrow> ref list \<Rightarrow> 'a store \<Rightarrow> 'a store" where
  "classify_loop analyzer [] st = st"
| "classify_loop analyzer (r # rs) st =
     classify_loop analyzer rs
       (st\<lparr>dict_at := (dict_at st)(r := classify_article analyzer (dict_at st r))\<rparr>)"

definition classify_articles :: "(string \<Rightarrow> real) option \<Rightarrow> 'a store \<Rightarrow> ref \<Rightarrow> 'a store \<times> ref" where
  "classify_articles analyzer st articles =
     (classify_loop analyzer (list_at st articles) st, articles)"

section \<open>NewsGatherer\<close>

text \<open>The exceptions of the model are those derived from \<open>Exception\<close>, which
  \<open>except Exception\<close> and a bare \<open>except\<close> both catch.\<close>

datatype py_error = IndexError | KeyError | OtherException string

text \<open>\<open>s.split(sep)\<close> for a one-character separator: the pieces between the
  separators, empty pieces kept.\<close>

fun split_on :: "char \<Rightarrow> string \<Rightarrow> string list" where
  "split_on sep [] = [[]]"
| "split_on sep (c # cs) =
     (if c = sep then [] # split_on sep cs
      else (case split_on sep cs of
              [] \<Rightarrow> [[c]]
            | w # ws \<Rightarrow> (c # w) # ws))"

text \<open>\<open>s.split()\<close>: the maximal runs of non-whitespace characters. The first argument
  is the run read so far.\<close>

fun split_ws_from :: "string \<Rightarrow> string \<Rightarrow> string list" where
  "split_ws_from w [] = (if w = [] then [] else [w])"
| "split_ws_from w (c # cs) =
     (if is_space c then (if w = [] then split_ws_from [] cs else w # split_ws_from [] cs)
      else split_ws_from (w @ [c]) cs)"

definition split_ws :: "string \<Rightarrow> string list" where
  "split_ws s = split_ws_from [] s"

text \<open>\<open>s.replace('www.', '')\<close>: every occurrence removed, scanning from the left.\<close>

fun replace_www :: "string \<Rightarrow> string" where
  "replace_www [] = []"
| "replace_www (c # cs) =
     (if prefix ''www.'' (c # cs) then replace_www (drop 3 cs) else c # replace_www cs)"

text \<open>\<open>urllib.parse.quote\<close> with its default safe character \<open>/\<close>: letters, digits
  and \<open>_.-~/\<close> are kept, every other byte becomes \<open>%XX\<close>.\<close>

definition hex_digit :: "nat \<Rightarrow> char" where
  "hex_digit n = (if n < 10 then char_of (48 + n) else char_of (55 + n))"

definition is_unreserved :: "char \<Rightarrow> bool" where
  "is_unreserved c =
     (let n = (of_char c :: nat)
      in (65 \<le> n \<and> n \<le> 90) \<or> (97 \<le> n \<and> n \<le> 122) \<or> (48 \<le> n \<and> n \<le> 57) \<or>
         c \<in> set ''_.-~/'')"

definition quote :: "string \<Rightarrow> string" where
  "quote s =
     concat (map (\<lambda>c. if is_unreserved c then [c]
                        else [CHR ''%'', hex_digit ((of_char c :: nat) div 16),
                              hex_digit ((of_char c :: nat) mod 16)]) s)"

text \<open>What \<open>feedparser.parse\<close> returns: the feed's own metadata and its entries.
  An attribute that \<open>hasattr\<close>, \<open>getattr\<close> or \<open>in\<close> may find missing is an option.\<close>

record enclosure =
  enc_type :: "string option"
  href :: "string option"

record entry =
  entry_title :: "string option"
  published :: "string option"
  updated :: "string option"
  summary :: "string option"
  description :: "string option"
  entry_link :: "string option"
  media_content :: "(string \<rightharpoonup> string) list option"
  media_thumbnail :: "(string \<rightharpoonup> string) list option"
  enclosures :: "enclosure list option"

record feed_info =
  feed_title :: "string option"

record feed_data =
  feed :: "feed_info option"
  entries :: "entry list"

text \<open>Python's truth value of \<open>image_url\<close>, which is \<open>None\<close> or a string.\<close>

definition truthy :: "string option \<Rightarrow> bool" where
  "truthy v = (case v of None \<Rightarrow> False | Some s \<Rightarrow> s \<noteq> [])"

text \<open>Step 1: \<open>entry.media_content[0]\<close>, under a bare \<open>except\<close> that swallows the
  IndexError of an empty list.\<close>

definition from_media_content :: "entry \<Rightarrow> string option" where
  "from_media_content e =
     (case media_content e of
        None \<Rightarrow> None
      | Some [] \<Rightarrow> None
      | Some (media # _) \<Rightarrow> media ''url'')"

text \<open>Step 2: \<open>entry.media_thumbnail[0]['url']\<close>; an IndexError or KeyError leaves
  \<open>image_url\<close> as it was.\<close>

definition from_media_thumbnail :: "entry \<Rightarrow> string option \<Rightarrow> string option" where
  "from_media_thumbnail e img =
     (if \<not> truthy img then
        (case media_thumbnail e of
           None \<Rightarrow> img
         | Some [] \<Rightarrow> img
         | Some (thumb # _) \<Rightarrow> (case thumb ''url'' of None \<Rightarrow> img | Some u \<Rightarrow> Some u))
      else img)"

text \<open>Step 3: the loop over the enclosures, left at the first one whose type starts
  with \<open>image/\<close>.\<close>

fun enclosure_loop :: "enclosure list \<Rightarrow> string option \<Rightarrow> string option" where
  "enclosure_loop [] img = img"
| "enclosure_loop (enc # encs) img =
     (if prefix ''image/'' (get_str (enc_type enc) '''') then href enc
      else enclosure_loop encs img)"

definition from_enclosures :: "entry \<Rightarrow> string option \<Rightarrow> string option" where
  "from_enclosures e img =
     (if \<not> truthy img then
        (case enclosures e of None \<Rightarrow> img | Some encs \<Rightarrow> enclosure_loop encs img)
      else img)"

text \<open>Step 4: the generated avatar.\<close>

definition avatar_url :: "string \<Rightarrow> string \<Rightarrow> string" where
  "avatar_url source_name bucket =
     (let safe_name = quote source_name;
          bg_color = (if bucket = ''right'' then ''ffebee''
                      else if bucket = ''left'' then ''e3f2fd'' else ''eee'');
          color = (if bucket = ''right'' then ''b71c1c''
                   else if bucket = ''left'' then ''0d47a1'' else ''333'')
      in ''https://ui-avatars.com/api/?name='' @ safe_name @ ''&background='' @ bg_color @
         ''&color='' @ color @ ''&size=128&bold=true&font-size=0.5&length=2'')"

definition resolve_image :: "entry \<Rightarrow> string \<Rightarrow> string \<Rightarrow> string" where
  "resolve_image e source_name bucket =
     (let img = from_enclosures e (from_media_thumbnail e (from_media_content e))
      in (case img of
            None \<Rightarrow> avatar_url source_name bucket
          | Some u \<Rightarrow> if u = [] then avatar_url source_name bucket else u))"

definition normalize_entry :: "string \<Rightarrow> string \<Rightarrow> string \<Rightarrow> entry \<Rightarrow> article" where
  "normalize_entry source_name bucket source_url e =
     (let title' = get_str (entry_title e) ''No Title'';
          published_at' = get_str (published e) (get_str (updated e) ''Unknown Date'');
          content' = get_str (summary e) (get_str (description e) ''No Content Available'');
          link' = get_str (entry_link e) source_url
      in \<lparr>title = Some (strip title'),
          source = Some (strip source_name),
          political_bucket = Some bucket,
          published_at = Some published_at',
          content = Some (strip content'),
          link = Some link',
          image_url = Some (resolve_image e source_name bucket),
          sentiment_score = None,
          stance = None\<rparr>)"

text \<open>The source name: the feed's title, else the third piece of the URL split at
  \<open>/\<close>, which raises IndexError when the URL has fewer than three pieces.\<close>

definition url_domain :: "string \<Rightarrow> py_error + string" where
  "url_domain source_url =
     (let parts = split_on CHR ''/'' source_url
      in if 2 < length parts then Inr (replace_www (parts ! 2)) else Inl IndexError)"

definition feed_source_name :: "feed_data \<Rightarrow> string \<Rightarrow> py_error + string" where
  "feed_source_name fd source_url =
     (case feed fd of
        None \<Rightarrow> url_domain source_url
      | Some info \<Rightarrow>
          (case feed_title info of
             None \<Rightarrow> url_domain source_url
           | Some t \<Rightarrow> Inr t))"

definition normalize_articles :: "feed_data \<Rightarrow> string \<Rightarrow> string \<Rightarrow> py_error + article list" where
  "normalize_articles fd bucket source_url =
     (case feed_source_name fd source_url of
        Inl exc \<Rightarrow> Inl exc
      | Inr source_name \<Rightarrow> Inr (map (normalize_entry source_name bucket source_url) (entries fd)))"

text \<open>\<open>_fetch_articles\<close>. The parameter \<open>feedparser\<close> is the imported module, or
  \<open>None\<close> when the import failed; \<open>parse\<close> answers with a parsed feed or raises.
  The result is the function's own outcome: \<open>Inl\<close> would be an exception leaving it.\<close>

definition fetch_articles ::
  "(string \<Rightarrow> py_error + feed_data) option \<Rightarrow> string \<Rightarrow> py_error + feed_data option" where
  "fetch_articles feedparser url =
     (case feedparser of
        None \<Rightarrow> Inr None
      | Some parse \<Rightarrow>
          (case parse url of
             Inl e \<Rightarrow> Inr None
           | Inr parsed \<Rightarrow> Inr (Some parsed)))"

definition simple_bucket_name :: "string \<Rightarrow> string" where
  "simple_bucket_name bucket =
     (if py_in ''right'' bucket then ''right''
      else if py_in ''left'' bucket then ''left''
      else ''center'')"

text \<open>The configuration is a dictionary in insertion order: bucket key and URL list.\<close>

definition build_tasks :: "(string \<times> string list) list \<Rightarrow> (string \<times> string) list" where
  "build_tasks sources =
     concat (map (\<lambda>(bucket, url_list). map (\<lambda>url. (url, simple_bucket_name bucket)) url_list)
               sources)"

text \<open>One pass of the loop over the completed futures: what the task of \<open>(url, bucket)\<close>
  appends to \<open>self.articles\<close>. \<open>future.result()\<close> hands over the outcome of
  \<open>_fetch_articles\<close>; an exception from it or from the normalization is caught by the
  \<open>try\<close> around both, and nothing is appended. A parsed feed is a non-empty
  dictionary, so \<open>if feed_data:\<close> only rules out \<open>None\<close>.\<close>

definition task_articles ::
  "(string \<Rightarrow> py_error + feed_data) option \<Rightarrow> string \<times> string \<Rightarrow> article list" where
  "task_articles feedparser task =
     (case task of (url, bucket) \<Rightarrow>
        (case fetch_articles feedparser url of
           Inl exc \<Rightarrow> []
         | Inr None \<Rightarrow> []
         | Inr (Some parsed) \<Rightarrow>
             (case normalize_articles parsed bucket url of
                Inl exc \<Rightarrow> []
              | Inr normalized \<Rightarrow> normalized)))"

fun collect_loop ::
  "(string \<Rightarrow> py_error + feed_data) option \<Rightarrow> (string \<times> string) list \<Rightarrow> article list \<Rightarrow> article list" where
  "collect_loop feedparser [] articles = articles"
| "collect_loop feedparser (task # tasks) articles =
     collect_loop feedparser tasks (articles @ task_articles feedparser task)"

definition STOP_WORDS :: "string list" where
  "STOP_WORDS =
     [''crisis'', ''conflict'', ''protest'', ''war'', ''news'', ''report'', ''update'',
      ''analysis'', ''2020'', ''2021'', ''2022'', ''breaking'']"

definition topic_keywords :: "string \<Rightarrow> string list" where
  "topic_keywords topic =
     (let raw_keywords = map lower (filter (\<lambda>w. length w > 3) (split_ws topic));
          keywords = filter (\<lambda>k. k \<notin> set STOP_WORDS) raw_keywords
      in if keywords = [] \<and> raw_keywords \<noteq> [] then raw_keywords
         else if keywords = [] then [lower topic]
         else keywords)"

definition text_to_search :: "article \<Rightarrow> string" where
  "text_to_search art = lower (get_str (title art) '''' @ '' '' @ get_str (content art) '''')"

definition any_keyword :: "string list \<Rightarrow> article \<Rightarrow> bool" where
  "any_keyword keywords art = list_ex (\<lambda>k. py_in k (text_to_search art)) keywords"

text \<open>The topic is \<open>None\<close> by default; \<open>if topic:\<close> is false for \<open>None\<close> and for the
  empty string.\<close>

definition filter_articles :: "string option \<Rightarrow> article list \<Rightarrow> article list" where
  "filter_articles topic articles =
     (case topic of
        None \<Rightarrow> articles
      | Some t \<Rightarrow>
          if t = [] then articles
          else filter (any_keyword (topic_keywords t)) articles)"

definition image_priority :: "article \<Rightarrow> nat" where
  "image_priority x =
     (if \<not> py_in ''ui-avatars.com'' (get_str (image_url x) '''') then 0 else 1)"

text \<open>
  \<open>gather_articles\<close>. The futures are handled in the order \<open>as_completed\<close> yields them,
  which the thread pool decides: \<open>as_completed\<close> is a parameter that reorders the task
  list. \<open>list.sort\<close> is a stable sort on the key, as \<open>sort_key\<close> is.
\<close>

definition gather_articles ::
  "(string \<Rightarrow> py_error + feed_data) option \<Rightarrow> ((string \<times> string) list \<Rightarrow> (string \<times> string) list) \<Rightarrow>
   (string \<times> string list) list \<Rightarrow> string option \<Rightarrow> article list" where
  "gather_articles feedparser as_completed sources topic =
     (let tasks = build_tasks sources;
          articles = collect_loop feedparser (as_completed tasks) [];
          filtered = filter_articles topic articles
      in sort_key image_priority filtered)"

section \<open>ArticleScorer\<close>

text \<open>What the scorer reads of a parsed document: the tokens with their attributes and
  children, and the sentences with their tokens and root.\<close>

datatype token =
  Token (t_pos: nat) (t_pos_name: string) (t_tag: string) (t_lemma: string) (t_lower: string)
        (t_dep: string) (t_ent_type: string) (t_text: string) (t_children: "token list")

record sent =
  sent_tokens :: "token list"
  sent_root :: token

record doc =
  doc_tokens :: "token list"
  doc_sents :: "sent list"

definition ABSOLUTIST_WORDS :: "string list" where
  "ABSOLUTIST_WORDS =
     [''always'', ''never'', ''undeniably'', ''indisputable'', ''worst'', ''best'',
      ''disastrous'', ''perfect'', ''everyone'', ''nobody'', ''must'', ''impossible'']"

definition IMPERATIVE_TRIGGERS :: "string list" where
  "IMPERATIVE_TRIGGERS =
     [''demand'', ''join'', ''stop'', ''sign'', ''donate'', ''refuse'', ''stand'', ''fight'',
      ''wake'']"

text \<open>
  The scorer computes on doubles: the reals \<open>m * 2 ^ e\<close> with a mantissa \<open>m\<close> below
  \<open>2 ^ 53\<close>. \<open>fl x\<close> is the double nearest to \<open>x\<close>, a tie going to the even
  mantissa; a float literal \<open>0.8\<close> is \<open>fl 0.8\<close>, and a division, product or sum of
  the scorer is the exact result under \<open>fl\<close>. \<open>exponent_from\<close> finds the binary
  exponent of a positive number by halving or doubling it into \<open>[1, 2)\<close>. Overflow and
  subnormal numbers are not modelled: the exponent is unbounded.
\<close>

fun exponent_from :: "nat \<Rightarrow> real \<Rightarrow> int \<Rightarrow> int" where
  "exponent_from 0 a e = e"
| "exponent_from (Suc n) a e =
     (if a \<ge> 2 then exponent_from n (a / 2) (e + 1)
      else if a < 1 then exponent_from n (a * 2) (e - 1)
      else e)"

text \<open>\<open>round(x)\<close> to the nearest integer, a tie going to the even one.\<close>

definition round_half_even :: "real \<Rightarrow> int" where
  "round_half_even x =
     (let f = \<lfloor>x\<rfloor>; d = x - of_int f
      in if d < 1 / 2 then f
         else if d > 1 / 2 then f + 1
         else if even f then f else f + 1)"

definition fl :: "real \<Rightarrow> real" where
  "fl x =
     (if x = 0 then 0
      else (let e = exponent_from 1100 \<bar>x\<bar> 0;
                ulp = 2 powi (e - 52)
            in sgn x * of_int (round_half_even (\<bar>x\<bar> / ulp)) * ulp))"

text \<open>\<open>round(x, 1)\<close> on a double: the exact value of \<open>x\<close> is rounded to a whole
  number of tenths, a tie going to the even one, and the result is the double nearest to
  that decimal. The argument is read as a double.\<close>

definition py_round1 :: "real \<Rightarrow> real" where
  "py_round1 x = fl (of_int (round_half_even (fl x * 10)) / 10)"

definition scorer_normalize :: "real \<Rightarrow> real \<Rightarrow> real \<Rightarrow> real" where
  "scorer_normalize val max_val weight =
     (let normalized = min (fl (val / max_val)) 1 in py_round1 (fl (normalized * weight)))"

definition count_by_pos :: "doc \<Rightarrow> nat \<Rightarrow> nat" where
  "count_by_pos d p = length (filter (\<lambda>t. t_pos t = p) (doc_tokens d))"

definition metric_subjectivity :: "doc \<Rightarrow> real \<Rightarrow> real" where
  "metric_subjectivity d weight =
     (let adj = count_by_pos d 84 + count_by_pos d 86;
          fact = count_by_pos d 92 + count_by_pos d 100
      in if fact = 0 then 0
         else (let ratio = fl (real adj / real fact)
               in scorer_normalize ratio 0.25 weight))"

definition speaking_verbs :: "string list" where
  "speaking_verbs = [''said'', ''claimed'', ''stated'', ''argued'', ''told'']"

definition token_sources :: "token \<Rightarrow> string list" where
  "token_sources tok =
     (if t_lemma tok \<in> set speaking_verbs
      then map t_text
             (filter (\<lambda>child. t_dep child = ''nsubj'' \<and> t_ent_type child \<in> set [''PERSON'', ''ORG''])
                (t_children tok))
      else [])"

definition metric_attribution_balance :: "doc \<Rightarrow> real \<Rightarrow> real" where
  "metric_attribution_balance d weight =
     (let sources = remdups (concat (map (\<lambda>s. concat (map token_sources (sent_tokens s)))
                                       (doc_sents d)));
          unique_sources = length sources;
          score = (if unique_sources = 0 then 1
                   else if unique_sources = 1 then fl 0.8
                   else if unique_sources = 2 then fl 0.4
                   else 0)
      in py_round1 (fl (score * weight)))"

definition metric_absolutism :: "doc \<Rightarrow> real \<Rightarrow> real" where
  "metric_absolutism d weight =
     (let count = length (filter (\<lambda>t. t_lower t \<in> set ABSOLUTIST_WORDS) (doc_tokens d))
      in scorer_normalize (real count) 5 weight)"

definition metric_call_to_action :: "doc \<Rightarrow> real \<Rightarrow> real" where
  "metric_call_to_action d weight =
     (let cta_count =
            length (filter (\<lambda>s. (t_pos_name (sent_root s) = ''VERB'' \<and> t_tag (sent_root s) = ''VB'') \<or>
                                  t_lemma (sent_root s) \<in> set IMPERATIVE_TRIGGERS)
                      (doc_sents d))
      in scorer_normalize (real cta_count) 2 weight)"

datatype details =
  Mocked string
| Metrics (subjectivity: real) (attribution: real) (absolutism: real) (cta: real)

record analysis =
  bias_score_1_to_10 :: real
  details :: details

text \<open>\<open>self.nlp\<close> is the language model, or \<open>None\<close> when loading it failed.\<close>

definition analyze_article :: "(string \<Rightarrow> doc) option \<Rightarrow> string \<Rightarrow> analysis" where
  "analyze_article nlp text =
     (case nlp of
        None \<Rightarrow> \<lparr>bias_score_1_to_10 = 5, details = Mocked ''Mocked (Spacy Missing)''\<rparr>
      | Some parse \<Rightarrow>
          (let d = parse (take 5000 text);
               b1 = metric_subjectivity d 30;
               b2 = metric_attribution_balance d 30;
               b3 = metric_absolutism d 20;
               b4 = metric_call_to_action d 20;
               total_bias = fl (fl (fl (b1 + b2) + b3) + b4);
               score = py_round1 (fl (total_bias / 10));
               score = max 1 (min 10 score)
           in \<lparr>bias_score_1_to_10 = score, details = Metrics b1 b2 b3 b4\<rparr>))"

section \<open>Image handler\<close>













section \<open>The specification's formulations\<close>

text \<open>The fallback sentiment as the specification words it: 0.3 for every occurrence of
  a keyword. \<open>count_occurrences k s\<close> counts the positions of \<open>s\<close> at which \<open>k\<close>
  starts.\<close>

fun count_occurrences :: "string \<Rightarrow> string \<Rightarrow> nat" where
  "count_occurrences k [] = 0"
| "count_occurrences k (c # cs) =
     (if prefix k (c # cs) then 1 else 0) + count_occurrences k cs"

definition spec_fallback_sentiment :: "string \<Rightarrow> real" where
  "spec_fallback_sentiment text =
     (let t = lower text;
          score = 0 + 0.3 * real (sum_list (map (\<lambda>w. count_occurrences w t) positive_words))
                    - 0.3 * real (sum_list (map (\<lambda>w. count_occurrences w t) negative_words))
      in max (-1) (min 1 score))"

text \<open>The keyword set as the specification derives it: split on whitespace, lowercase,
  keep the tokens longer than 3 characters, remove the stop words, with the two
  fallbacks.\<close>

definition spec_keywords :: "string \<Rightarrow> string list" where
  "spec_keywords topic =
     (let raw_tokens = filter (\<lambda>w. length w > 3) (map lower (split_ws topic));
          kept = filter (\<lambda>k. k \<notin> set STOP_WORDS) raw_tokens
      in if kept \<noteq> [] then kept
         else if raw_tokens \<noteq> [] then raw_tokens
         else [lower topic])"

text \<open>The retention test as the specification words it: a keyword occurs as a
  case-insensitive substring of the title concatenated with the content.\<close>

definition spec_retained :: "string \<Rightarrow> article \<Rightarrow> bool" where
  "spec_retained topic art =
     list_ex (\<lambda>k. py_in (lower k) (lower (get_str (title art) [] @ get_str (content art) [])))
       (spec_keywords topic)"

text \<open>The same test on the title, a single space and the content.\<close>

definition retained_joined :: "string \<Rightarrow> article \<Rightarrow> bool" where
  "retained_joined topic art =
     list_ex (\<lambda>k. py_in (lower k) (lower (get_str (title art) [] @ '' '' @ get_str (content art) [])))
       (spec_keywords topic)"



definition is_placeholder :: "article \<Rightarrow> bool" where
  "is_placeholder a = py_in ''ui-avatars.com'' (get_str (image_url a) '''')"






text \<open>Two states of a dictionary that agree on every key but \<open>sentiment_score\<close> and
  \<open>stance\<close>.\<close>

definition other_fields_unchanged :: "'a article_scheme \<Rightarrow> 'a article_scheme \<Rightarrow> bool" where
  "other_fields_unchanged a b \<longleftrightarrow>
     title b = title a \<and> source b = source a \<and> political_bucket b = political_bucket a \<and>
     published_at b = published_at a \<and> content b = content a \<and> link b = link a \<and>
     image_url b = image_url a \<and> article.more b = article.more a"

section \<open>Example data\<close>

definition demo_store :: "unit store" where
  "demo_store =
     \<lparr>dict_at = (\<lambda>r. \<lparr>title = Some ''Worst crisis ever'', source = Some ''Reuters'',
                        political_bucket = (if r = 0 then Some ''center'' else Some ''left''),
                        published_at = Some ''today'', content = Some ''terrible harm'',
                        link = Some ''http://x/y'', image_url = Some ''http://x/i.png'',
                        sentiment_score = None, stance = None\<rparr>),
      list_at = (\<lambda>l. if l = 7 then [0, 1] else [])\<rparr>"

definition plain_entry :: entry where
  "plain_entry =
     \<lparr>entry_title = Some '' Talks resume '', published = Some ''Mon, 01 Jan 2024'',
      updated = None, summary = Some ''Leaders met in Ukraine. '', description = None,
      entry_link = Some ''http://right.example/1'', media_content = None,
      media_thumbnail = None, enclosures = None\<rparr>"

definition media_entry :: entry where
  "media_entry =
     \<lparr>entry_title = Some ''Markets rally'', published = None,
      updated = Some ''2024-01-02'', summary = None, description = Some ''Stocks rose.'',
      entry_link = None, media_content = Some [[''url'' \<mapsto> ''http://img.example/a.png'']],
      media_thumbnail = None, enclosures = None\<rparr>"

definition demo_feed :: feed_data where
  "demo_feed = \<lparr>feed = Some \<lparr>feed_title = Some '' Right Daily''\<rparr>,
                entries = [plain_entry, media_entry]\<rparr>"

definition demo_sources :: "(string \<times> string list) list" where
  "demo_sources =
     [(''left_leaning_sources'', [''http://left.example/rss'']),
      (''right_leaning_sources'', [''http://right.example/rss''])]"

text \<open>A parser for which the left feed times out and the right feed answers.\<close>

definition demo_parse :: "string \<Rightarrow> py_error + feed_data" where
  "demo_parse url =
     (if url = ''http://right.example/rss'' then Inr demo_feed
      else Inl (OtherException ''timed out''))"

definition plain_article :: article where
  "plain_article = normalize_entry '' Right Daily'' ''right'' ''http://right.example/rss'' plain_entry"

definition media_article :: article where
  "media_article = normalize_entry '' Right Daily'' ''right'' ''http://right.example/rss'' media_entry"

text \<open>A feed whose only entry has a title ending in \<open>US\<close> and a summary starting
  with \<open>tax\<close>.\<close>

definition tax_entry :: entry where
  "tax_entry =
     \<lparr>entry_title = Some ''Biden signs US'', published = Some ''2024-03-01'',
      updated = None, summary = Some ''tax bill passes'', description = None,
      entry_link = Some ''http://wire.example/7'', media_content = None,
      media_thumbnail = None, enclosures = None\<rparr>"

definition tax_parse :: "string \<Rightarrow> py_error + feed_data" where
  "tax_parse url = Inr \<lparr>feed = Some \<lparr>feed_title = Some ''Capitol Wire''\<rparr>, entries = [tax_entry]\<rparr>"

definition tax_sources :: "(string \<times> string list) list" where
  "tax_sources = [(''center_sources'', [''http://wire.example/rss''])]"

definition tax_article :: article where
  "tax_article = normalize_entry ''Capitol Wire'' ''center'' ''http://wire.example/rss'' tax_entry"

text \<open>A parsed document in which three distinct people are the subjects of a speaking
  verb and nothing else scores.\<close>

definition person :: "string \<Rightarrow> token" where
  "person name = Token 96 ''PROPN'' ''NNP'' name (lower name) ''nsubj'' ''PERSON'' name []"

definition said_token :: token where
  "said_token =
     Token 100 ''VERB'' ''VBD'' ''said'' ''said'' ''ROOT'' '''' ''said''
       [person ''Alice'', person ''Bob'', person ''Carol'']"

definition demo_doc :: doc where
  "demo_doc =
     \<lparr>doc_tokens = [person ''Alice'', person ''Bob'', person ''Carol'', said_token],
      doc_sents = [\<lparr>sent_tokens = [person ''Alice'', person ''Bob'', person ''Carol'', said_token],
                    sent_root = said_token\<rparr>]\<rparr>"

text \<open>A parsed document of one adjective and eighty nouns, without sentences.\<close>

definition adjective_doc :: doc where
  "adjective_doc =
     \<lparr>doc_tokens =
        Token 84 ''ADJ'' ''JJ'' ''great'' ''great'' ''amod'' [] ''great'' [] #
        replicate 80 (Token 92 ''NOUN'' ''NN'' ''tax'' ''tax'' ''conj'' [] ''tax'' []),
      doc_sents = []\<rparr>"

section \<open>Strings: basic facts\<close>

lemma py_in_sublist: "py_in k s \<longleftrightarrow> sublist k s"
  by (induction s) (auto simp: sublist_Cons_right)

section \<open>OpinionClassifier: stance and sentiment\<close>

lemma add_positive_eq:
  "add_positive t ws s = s + 0.3 * real (length (filter (\<lambda>w. py_in w t) ws))"
proof (induction ws arbitrary: s)
  case Nil
  show ?case by simp
next
  case (Cons w ws)
  show ?case by (cases "py_in w t") (simp_all add: Cons.IH distrib_left)
qed

lemma sub_negative_eq:
  "sub_negative t ws s = s - 0.3 * real (length (filter (\<lambda>w. py_in w t) ws))"
proof (induction ws arbitrary: s)
  case Nil
  show ?case by simp
next
  case (Cons w ws)
  show ?case by (cases "py_in w t") (simp_all add: Cons.IH distrib_left)
qed

lemma classify_article_idem:
  "classify_article an (classify_article an a) = classify_article an a"
  by (simp add: classify_article_def Let_def)

lemma classify_loop_list_at: "list_at (classify_loop an rs st) = list_at st"
  by (induction rs arbitrary: st) simp_all

text \<open>The loop classifies exactly the dictionaries the list refers to, each from its
  state before the call, also when the list refers to one of them twice.\<close>

lemma classify_loop_dict_at:
  "dict_at (classify_loop an rs st) r =
     (if r \<in> set rs then classify_article an (dict_at st r) else dict_at st r)"
  by (induction rs arbitrary: st) (auto simp: classify_article_idem)

text \<open>
  Claim C1. Every article of the list given to \<open>classify_articles\<close> whose
  \<open>political_bucket\<close> is \<open>center\<close> has \<open>sentiment_score\<close> 0.0 and \<open>stance\<close>
  \<open>NEUTRAL\<close> afterwards, whatever its title and content and whatever the sentiment
  model is.
\<close>

theorem center_forced_neutral:
  assumes "r \<in> set (list_at st articles)"
    and "political_bucket (dict_at st r) = Some ''center''"
  shows "sentiment_score (dict_at (fst (classify_articles analyzer st articles)) r) = Some 0 \<and>
         stance (dict_at (fst (classify_articles analyzer st articles)) r) = Some ''NEUTRAL''"
  using assms
  by (simp add: classify_articles_def classify_loop_dict_at classify_article_def)

theorem center_forced_neutral_witness:
  "0 \<in> set (list_at demo_store 7) \<and>
   political_bucket (dict_at demo_store 0) = Some ''center'' \<and>
   title (dict_at demo_store 0) = Some ''Worst crisis ever'' \<and>
   sentiment_score (dict_at (fst (classify_articles None demo_store 7)) 0) = Some 0 \<and>
   stance (dict_at (fst (classify_articles None demo_store 7)) 0) = Some ''NEUTRAL''"
  using center_forced_neutral [of 0 demo_store 7 None]
  by (simp add: demo_store_def)

text \<open>
  Claim C3. \<open>_determine_stance\<close> returns \<open>IN_FAVOR\<close> exactly for the scores from 0.15
  upwards, \<open>AGAINST\<close> exactly for the scores up to -0.15 and \<open>NEUTRAL\<close> exactly for the
  scores strictly between; the two boundary scores belong to \<open>IN_FAVOR\<close> and
  \<open>AGAINST\<close>.
\<close>

theorem determine_stance_thresholds:
  "(determine_stance s = ''IN_FAVOR'' \<longleftrightarrow> s \<ge> 0.15) \<and>
   (determine_stance s = ''AGAINST'' \<longleftrightarrow> s \<le> -0.15) \<and>
   (determine_stance s = ''NEUTRAL'' \<longleftrightarrow> -0.15 < s \<and> s < 0.15) \<and>
   determine_stance 0.15 = ''IN_FAVOR'' \<and> determine_stance (-0.15) = ''AGAINST''"
  by (auto simp: determine_stance_def)

theorem determine_stance_thresholds_witness:
  "determine_stance 0.1499 = ''NEUTRAL'' \<and> determine_stance 0.15 = ''IN_FAVOR'' \<and>
   determine_stance (-0.15) = ''AGAINST'' \<and> determine_stance (-0.1499) = ''NEUTRAL''"
  using determine_stance_thresholds [of "0.1499"] determine_stance_thresholds [of "- 0.1499"]
  by simp

lemma analyze_good_good: "analyze_sentiment None ''good good'' = 0.3"
  by code_simp

lemma spec_good_good: "spec_fallback_sentiment ''good good'' = 0.6"
  by code_simp

text \<open>
  Claim C5, as stated: without the sentiment model, \<open>_analyze_sentiment\<close> adds 0.3 per
  occurrence of a positive keyword. It does not: on \<open>good good\<close> the keyword occurs
  twice and the code returns 0.3, where counting occurrences gives 0.6.
\<close>

theorem fallback_per_occurrence_counterexample:
  "analyze_sentiment None ''good good'' = 0.3 \<and>
   spec_fallback_sentiment ''good good'' = 0.6 \<and>
   analyze_sentiment None ''good good'' \<noteq> spec_fallback_sentiment ''good good''"
  unfolding analyze_good_good spec_good_good by simp

text \<open>
  Claim C5, amended. Without the sentiment model, \<open>_analyze_sentiment\<close> returns for
  every text the value obtained by starting at 0.0, adding 0.3 once for each keyword of
  the positive list that occurs in the lowercased text, subtracting 0.3 once for each
  keyword of the negative list that occurs in it (substring match, not tokenized), and
  clamping the result to [-1.0, 1.0].
\<close>

theorem fallback_sentiment_formula:
  "analyze_sentiment None text =
     max (-1) (min 1
       (0 + 0.3 * real (length (filter (\<lambda>w. py_in w (lower text)) positive_words))
          - 0.3 * real (length (filter (\<lambda>w. py_in w (lower text)) negative_words)))) \<and>
   -1 \<le> analyze_sentiment None text \<and> analyze_sentiment None text \<le> 1"
  by (simp add: analyze_sentiment_def Let_def add_positive_eq sub_negative_eq)

lemma present_keywords_demo:
  "filter (\<lambda>w. py_in w (lower ''Good reforms, BAD crisis, bad harm'')) positive_words =
     [''good'', ''reforms''] \<and>
   filter (\<lambda>w. py_in w (lower ''Good reforms, BAD crisis, bad harm'')) negative_words =
     [''bad'', ''crisis'', ''harm'']"
  by code_simp

theorem fallback_sentiment_formula_witness:
  "analyze_sentiment None ''Good reforms, BAD crisis, bad harm'' = - 0.3"
  using fallback_sentiment_formula [of "''Good reforms, BAD crisis, bad harm''"]
  unfolding present_keywords_demo [THEN conjunct1] present_keywords_demo [THEN conjunct2]
  by simp

section \<open>OpinionClassifier: what a call changes\<close>

lemma classify_article_other_fields:
  "other_fields_unchanged a (classify_article an a)"
  by (simp add: other_fields_unchanged_def classify_article_def Let_def)

lemma classify_article_adds:
  "sentiment_score (classify_article an a) \<noteq> None \<and> stance (classify_article an a) \<noteq> None"
  by (simp add: classify_article_def Let_def)

text \<open>
  Claim C10. \<open>classify_articles\<close> returns the reference of the list it was given; the
  list holds the same references as before, so no article is added or removed; each
  dictionary of the list keeps every key but \<open>sentiment_score\<close> and \<open>stance\<close>, which
  are set; and no other dictionary of the store changes.
\<close>

theorem classify_articles_frame:
  "snd (classify_articles analyzer st articles) = articles \<and>
   list_at (fst (classify_articles analyzer st articles)) = list_at st \<and>
   (\<forall>r. r \<in> set (list_at st articles) \<longrightarrow>
      other_fields_unchanged (dict_at st r)
        (dict_at (fst (classify_articles analyzer st articles)) r) \<and>
      sentiment_score (dict_at (fst (classify_articles analyzer st articles)) r) \<noteq> None \<and>
      stance (dict_at (fst (classify_articles analyzer st articles)) r) \<noteq> None) \<and>
   (\<forall>r. r \<notin> set (list_at st articles) \<longrightarrow>
      dict_at (fst (classify_articles analyzer st articles)) r = dict_at st r)"
proof (intro conjI allI impI)
  show "snd (classify_articles analyzer st articles) = articles"
    by (simp add: classify_articles_def)
  show "list_at (fst (classify_articles analyzer st articles)) = list_at st"
    by (simp add: classify_articles_def classify_loop_list_at)
next
  fix r assume "r \<in> set (list_at st articles)"
  then have eq: "dict_at (fst (classify_articles analyzer st articles)) r =
      classify_article analyzer (dict_at st r)"
    by (simp add: classify_articles_def classify_loop_dict_at)
  show "other_fields_unchanged (dict_at st r)
      (dict_at (fst (classify_articles analyzer st articles)) r)"
    unfolding eq by (rule classify_article_other_fields)
  show "sentiment_score (dict_at (fst (classify_articles analyzer st articles)) r) \<noteq> None"
    unfolding eq using classify_article_adds by blast
  show "stance (dict_at (fst (classify_articles analyzer st articles)) r) \<noteq> None"
    unfolding eq using classify_article_adds by blast
next
  fix r assume "r \<notin> set (list_at st articles)"
  then show "dict_at (fst (classify_articles analyzer st articles)) r = dict_at st r"
    by (simp add: classify_articles_def classify_loop_dict_at)
qed

theorem classify_articles_frame_witness:
  "snd (classify_articles None demo_store 7) = 7 \<and>
   list_at (fst (classify_articles None demo_store 7)) 7 = [0, 1] \<and>
   1 \<in> set (list_at demo_store 7) \<and>
   title (dict_at (fst (classify_articles None demo_store 7)) 1) = Some ''Worst crisis ever'' \<and>
   image_url (dict_at (fst (classify_articles None demo_store 7)) 1) = Some ''http://x/i.png'' \<and>
   stance (dict_at (fst (classify_articles None demo_store 7)) 1) \<noteq> None \<and>
   2 \<notin> set (list_at demo_store 7) \<and>
   dict_at (fst (classify_articles None demo_store 7)) 2 = dict_at demo_store 2"
  using classify_articles_frame [of None demo_store 7]
  by (simp add: demo_store_def other_fields_unchanged_def)

section \<open>NewsGatherer: normalization\<close>


lemma demo_normalized:
  "normalize_articles demo_feed ''right'' ''http://right.example/rss'' =
     Inr [plain_article, media_article]"
  by code_simp







section \<open>Image resolution\<close>











section \<open>NewsGatherer: gathering\<close>

lemma collect_loop_concat:
  "collect_loop feedparser tasks articles =
     articles @ concat (map (task_articles feedparser) tasks)"
  by (induction tasks arbitrary: articles) simp_all

lemma set_filter_articles:
  "set (filter_articles topic (concat xss)) = (\<Union>xs\<in>set xss. set (filter_articles topic xs))"
  by (auto simp: filter_articles_def split: option.splits)

lemma set_gather_articles:
  assumes "mset (as_completed (build_tasks sources)) = mset (build_tasks sources)"
  shows "set (gather_articles feedparser as_completed sources topic) =
     (\<Union>task\<in>set (build_tasks sources). set (filter_articles topic (task_articles feedparser task)))"
proof -
  have "set (as_completed (build_tasks sources)) = set (build_tasks sources)"
    using assms by (rule mset_eq_setD)
  then show ?thesis
    by (simp add: gather_articles_def Let_def collect_loop_concat set_filter_articles)
qed

lemma demo_tasks:
  "build_tasks demo_sources =
     [(''http://left.example/rss'', ''left''), (''http://right.example/rss'', ''right'')]"
  by code_simp

lemma demo_collected:
  "collect_loop (Some demo_parse) (rev (build_tasks demo_sources)) [] =
     [plain_article, media_article]"
  by code_simp

lemma demo_fetch_right:
  "fetch_articles (Some demo_parse) ''http://right.example/rss'' = Inr (Some demo_feed)"
  by (simp add: fetch_articles_def demo_parse_def)

text \<open>
  Claim C4. \<open>_fetch_articles\<close> never raises: whatever the parser does, it returns, and
  it returns \<open>None\<close> when the parser raised. And in \<open>gather_articles\<close>, in whatever order
  the futures complete, the articles normalized from a source whose fetch and normalization
  succeeded are in the returned list (those the topic keeps), whatever happened to the
  other sources: the list holds exactly what each task contributes on its own.
  The exceptions of the model are those derived from \<open>Exception\<close>.
\<close>

theorem failures_isolated:
  assumes "mset (as_completed (build_tasks sources)) = mset (build_tasks sources)"
  shows "(\<exists>r. fetch_articles feedparser url = Inr r) \<and>
     (\<forall>parse e. feedparser = Some parse \<longrightarrow> parse url = Inl e \<longrightarrow>
        fetch_articles feedparser url = Inr None) \<and>
     (\<forall>u b parsed arts.
        (u, b) \<in> set (build_tasks sources) \<longrightarrow>
        fetch_articles feedparser u = Inr (Some parsed) \<longrightarrow>
        normalize_articles parsed b u = Inr arts \<longrightarrow>
        set (filter_articles topic arts) \<subseteq>
          set (gather_articles feedparser as_completed sources topic)) \<and>
     set (gather_articles feedparser as_completed sources topic) =
       (\<Union>task\<in>set (build_tasks sources).
          set (filter_articles topic (task_articles feedparser task)))"
proof (intro conjI allI impI)
  show "\<exists>r. fetch_articles feedparser url = Inr r"
    by (simp add: fetch_articles_def split: option.split sum.split)
next
  fix parse e assume "feedparser = Some parse" "parse url = Inl e"
  then show "fetch_articles feedparser url = Inr None"
    by (simp add: fetch_articles_def)
next
  fix u b parsed arts
  assume task: "(u, b) \<in> set (build_tasks sources)"
    and "fetch_articles feedparser u = Inr (Some parsed)"
    and "normalize_articles parsed b u = Inr arts"
  then have "task_articles feedparser (u, b) = arts"
    by (simp add: task_articles_def)
  with task show "set (filter_articles topic arts) \<subseteq>
      set (gather_articles feedparser as_completed sources topic)"
    unfolding set_gather_articles [of as_completed sources, OF assms] by blast
next
  show "set (gather_articles feedparser as_completed sources topic) =
       (\<Union>task\<in>set (build_tasks sources).
          set (filter_articles topic (task_articles feedparser task)))"
    by (rule set_gather_articles [of as_completed sources, OF assms])
qed

theorem failures_isolated_witness:
  "mset (rev (build_tasks demo_sources)) = mset (build_tasks demo_sources) \<and>
   demo_parse ''http://left.example/rss'' = Inl (OtherException ''timed out'') \<and>
   fetch_articles (Some demo_parse) ''http://left.example/rss'' = Inr None \<and>
   (''http://right.example/rss'', ''right'') \<in> set (build_tasks demo_sources) \<and>
   set [plain_article, media_article] \<subseteq>
     set (gather_articles (Some demo_parse) rev demo_sources None)"
proof -
  have perm: "mset (rev (build_tasks demo_sources)) = mset (build_tasks demo_sources)"
    by simp
  have left: "demo_parse ''http://left.example/rss'' = Inl (OtherException ''timed out'')"
    by (simp add: demo_parse_def)
  note iso = failures_isolated [of rev demo_sources "Some demo_parse" "''http://left.example/rss''" None,
      OF perm]
  from iso left have "fetch_articles (Some demo_parse) ''http://left.example/rss'' = Inr None"
    by blast
  moreover have task: "(''http://right.example/rss'', ''right'') \<in> set (build_tasks demo_sources)"
    by (simp add: demo_tasks)
  moreover from iso task demo_fetch_right demo_normalized
  have "set (filter_articles None [plain_article, media_article]) \<subseteq>
     set (gather_articles (Some demo_parse) rev demo_sources None)"
    by blast
  ultimately show ?thesis
    using perm left by (simp add: filter_articles_def)
qed

subsection \<open>Topic filter\<close>

lemma char_lower_idem: "char_lower (char_lower c) = char_lower c"
  by (auto simp: char_lower_def Let_def)

lemma lower_idem: "lower (lower s) = lower s"
  by (simp add: lower_def char_lower_idem)

lemma topic_keywords_spec: "topic_keywords topic = spec_keywords topic"
proof -
  have "filter (\<lambda>w. length w > 3) (map lower (split_ws topic)) =
        map lower (filter (\<lambda>w. length w > 3) (split_ws topic))"
    by (simp add: filter_map o_def lower_def)
  then show ?thesis
    by (simp add: topic_keywords_def spec_keywords_def Let_def)
qed

lemma spec_keywords_lower: "k \<in> set (spec_keywords topic) \<Longrightarrow> lower k = k"
  by (auto simp: spec_keywords_def Let_def lower_idem split: if_splits)

lemma any_keyword_joined: "any_keyword (topic_keywords topic) a = retained_joined topic a"
proof -
  have "py_in (lower k) t = py_in k t" if "k \<in> set (spec_keywords topic)" for k t
    using spec_keywords_lower [OF that] by simp
  then show ?thesis
    by (simp add: any_keyword_def retained_joined_def topic_keywords_spec text_to_search_def
          list_ex_iff cong: bex_cong)
qed

lemma demo_keywords: "spec_keywords ''Ukraine War Crisis'' = [''ukraine'']"
  by code_simp

lemma demo_retained:
  "retained_joined ''Ukraine War Crisis'' plain_article \<and>
   \<not> retained_joined ''Ukraine War Crisis'' media_article"
  by code_simp

lemma tax_keywords: "topic_keywords ''US tax'' = [''us tax'']"
  by code_simp

lemma tax_gathered:
  "gather_articles (Some tax_parse) rev tax_sources (Some ''US tax'') = [tax_article]"
  by code_simp

lemma tax_fields:
  "title tax_article = Some ''Biden signs US'' \<and> content tax_article = Some ''tax bill passes''"
  by code_simp

lemma tax_not_retained: "\<not> spec_retained ''US tax'' tax_article"
  by code_simp

text \<open>
  Claim C6, as stated: an article is retained iff a keyword is a substring of its title
  concatenated with its content. The code searches the title, a space and the content:
  for the topic \<open>US tax\<close>, whose only keyword is \<open>us tax\<close>, it retains the article
  titled \<open>Biden signs US\<close> with the content \<open>tax bill passes\<close>, although the keyword
  does not occur in \<open>biden signs ustax bill passes\<close>.
\<close>

theorem topic_filter_concatenation_counterexample:
  "topic_keywords ''US tax'' = [''us tax''] \<and>
   title tax_article = Some ''Biden signs US'' \<and>
   content tax_article = Some ''tax bill passes'' \<and>
   gather_articles (Some tax_parse) rev tax_sources (Some ''US tax'') = [tax_article] \<and>
   \<not> spec_retained ''US tax'' tax_article"
  by (simp add: tax_keywords tax_gathered tax_fields tax_not_retained)

text \<open>
  Claim C6, amended. For a non-empty topic the keywords \<open>gather_articles\<close> filters with
  are the specification's: the whitespace-separated tokens, lowercased, longer than 3
  characters, without the stop words; the tokens themselves when the stop words leave
  none; the whole topic lowercased when there is no token. An article that was collected
  is returned iff one of the keywords is a case-insensitive substring of its title, a
  single space and its content, concatenated in this order.
\<close>

theorem topic_filter:
  assumes "topic \<noteq> []"
  shows "topic_keywords topic = spec_keywords topic \<and>
         (a \<in> set (gather_articles feedparser as_completed sources (Some topic)) \<longleftrightarrow>
          a \<in> set (collect_loop feedparser (as_completed (build_tasks sources)) []) \<and>
          retained_joined topic a)"
proof
  show "topic_keywords topic = spec_keywords topic"
    by (rule topic_keywords_spec)
  show "a \<in> set (gather_articles feedparser as_completed sources (Some topic)) \<longleftrightarrow>
          a \<in> set (collect_loop feedparser (as_completed (build_tasks sources)) []) \<and>
          retained_joined topic a"
    using assms
    by (simp add: gather_articles_def Let_def filter_articles_def any_keyword_joined)
qed

theorem topic_filter_witness:
  "''Ukraine War Crisis'' \<noteq> [] \<and>
   topic_keywords ''Ukraine War Crisis'' = [''ukraine''] \<and>
   plain_article \<in> set (gather_articles (Some demo_parse) rev demo_sources (Some ''Ukraine War Crisis'')) \<and>
   media_article \<notin> set (gather_articles (Some demo_parse) rev demo_sources (Some ''Ukraine War Crisis''))"
  using topic_filter [of "''Ukraine War Crisis''" plain_article "Some demo_parse" rev demo_sources]
    topic_filter [of "''Ukraine War Crisis''" media_article "Some demo_parse" rev demo_sources]
  by (simp add: demo_keywords demo_retained demo_collected)

subsection \<open>Ordering\<close>

lemma sort_key_two_keys:
  fixes f :: "'a \<Rightarrow> nat"
  assumes "\<And>x. f x = 0 \<or> f x = 1"
  shows "sort_key f xs = filter (\<lambda>x. f x = 0) xs @ filter (\<lambda>x. f x = 1) xs"
proof -
  have sorted: "sorted (map f (sort_key f xs))" by simp
  have part: "ys = filter (\<lambda>x. f x = 0) ys @ filter (\<lambda>x. f x = 1) ys"
    if "sorted (map f ys)" for ys
    using that
  proof (induction ys)
    case Nil
    show ?case by simp
  next
    case (Cons y ys)
    then have IH: "ys = filter (\<lambda>x. f x = 0) ys @ filter (\<lambda>x. f x = 1) ys"
      by simp
    show ?case
    proof (cases "f y = 0")
      case True
      then show ?thesis using IH by simp
    next
      case False
      then have y1: "f y = 1" using assms [of y] by simp
      from Cons.prems have "\<forall>x\<in>set ys. f y \<le> f x" by simp
      then have "\<forall>x\<in>set ys. f x = 1" using y1 assms by (metis le_zero_eq zero_neq_one)
      then have "filter (\<lambda>x. f x = 0) ys = []" "filter (\<lambda>x. f x = 1) ys = ys"
        by (auto simp: filter_empty_conv filter_id_conv)
      then show ?thesis using y1 by simp
    qed
  qed
  from part [OF sorted] show ?thesis
    by (simp add: sort_key_stable)
qed

lemma demo_placeholder: "is_placeholder plain_article \<and> \<not> is_placeholder media_article"
  by code_simp

text \<open>
  Claim C8. The list \<open>gather_articles\<close> returns is the filtered list's articles whose
  image does not contain \<open>ui-avatars.com\<close>, in their order, followed by those whose
  image contains it, in their order.
\<close>

theorem real_images_first:
  "gather_articles feedparser as_completed sources topic =
     filter (\<lambda>a. \<not> is_placeholder a)
       (filter_articles topic (collect_loop feedparser (as_completed (build_tasks sources)) [])) @
     filter is_placeholder
       (filter_articles topic (collect_loop feedparser (as_completed (build_tasks sources)) []))"
proof -
  have keys: "image_priority x = 0 \<or> image_priority x = 1" for x
    by (simp add: image_priority_def)
  have k0: "(image_priority x = 0) = (\<not> is_placeholder x)" for x
    by (simp add: image_priority_def is_placeholder_def)
  have k1: "(image_priority x = Suc 0) = is_placeholder x" for x
    by (simp add: image_priority_def is_placeholder_def)
  show ?thesis
    unfolding gather_articles_def Let_def
    by (simp add: sort_key_two_keys [of image_priority, OF keys] k0 k1)
qed

theorem real_images_first_witness:
  "collect_loop (Some demo_parse) (rev (build_tasks demo_sources)) [] = [plain_article, media_article] \<and>
   is_placeholder plain_article \<and> \<not> is_placeholder media_article \<and>
   gather_articles (Some demo_parse) rev demo_sources None = [media_article, plain_article]"
  using real_images_first [of "Some demo_parse" rev demo_sources None]
  by (simp add: demo_collected demo_placeholder filter_articles_def)

section \<open>ArticleScorer: the score\<close>

lemma fl_one: "fl 1 = 1"
  by code_simp

lemma fl_ten: "fl 10 = 10"
  by code_simp

text \<open>Doubles that are not the decimals they are written as: the double \<open>3.15\<close> lies
  below 3.15 and rounds to 3.1, the double \<open>5.65\<close> lies above 5.65 and rounds to 5.7.\<close>

lemma py_round1_examples:
  "py_round1 3.15 = fl 3.1 \<and> py_round1 0.35 = fl 0.3 \<and> py_round1 5.65 = fl 5.7 \<and>
   py_round1 0.25 = fl 0.2 \<and> fl 3.15 < 3.15 \<and> 5.65 < fl 5.65 \<and>
   fl 0.1 = 3602879701896397 / 36028797018963968"
  by code_simp

lemma py_round1_tenth: "\<exists>k::int. py_round1 x = fl (of_int k / 10)"
  by (auto simp: py_round1_def)

lemma clamp_tenth:
  fixes k :: int
  shows "\<exists>j::int. max 1 (min 10 (fl (of_int k / 10))) = fl (of_int j / 10)"
proof -
  consider "fl (of_int k / 10) \<le> 1" | "1 < fl (of_int k / 10)" "fl (of_int k / 10) < 10"
    | "10 \<le> fl (of_int k / 10)" by linarith
  then show ?thesis
  proof cases
    case 1
    then have "max 1 (min 10 (fl (of_int k / 10))) = fl (of_int 10 / 10)"
      by (simp add: fl_one max_def min_def)
    then show ?thesis by blast
  next
    case 2
    then have "max 1 (min 10 (fl (of_int k / 10))) = fl (of_int k / 10)"
      by (simp add: max_def min_def)
    then show ?thesis by blast
  next
    case 3
    then have "max 1 (min 10 (fl (of_int k / 10))) = fl (of_int 100 / 10)"
      by (simp add: fl_ten max_def min_def)
    then show ?thesis by blast
  qed
qed

lemma demo_analysis:
  "analyze_article (Some (\<lambda>t. demo_doc)) ''Alice, Bob and Carol said so.'' =
     \<lparr>bias_score_1_to_10 = 1, details = Metrics 0 0 0 0\<rparr>"
  by code_simp

lemma adjective_analysis:
  "analyze_article (Some (\<lambda>t. adjective_doc)) ''great tax tax tax'' =
     \<lparr>bias_score_1_to_10 = fl 3.1, details = Metrics 1.5 30 0 0\<rparr>"
  by code_simp

lemma adjective_total:
  "fl (fl (fl (fl (1.5 + 30) + 0) + 0) / 10) = fl 3.15 \<and> py_round1 (fl 3.15) = fl 3.1"
  by code_simp

text \<open>
  Claim C2. With the language model available, the \<open>bias_score_1_to_10\<close> that
  \<open>analyze_article\<close> returns is \<open>round(x, 1)\<close> of the sum of the four sub-scores of its
  \<open>details\<close> divided by 10, all in double arithmetic, clamped to [1, 10]; so it lies
  between 1 and 10 and is rounded to one decimal place: it is the double of a whole
  number of tenths.
\<close>

theorem bias_score_clamped:
  "details (analyze_article (Some nlp) text) =
     Metrics (metric_subjectivity (nlp (take 5000 text)) 30)
             (metric_attribution_balance (nlp (take 5000 text)) 30)
             (metric_absolutism (nlp (take 5000 text)) 20)
             (metric_call_to_action (nlp (take 5000 text)) 20) \<and>
   bias_score_1_to_10 (analyze_article (Some nlp) text) =
     max 1 (min 10 (py_round1 (fl
       (fl (fl (fl (subjectivity (details (analyze_article (Some nlp) text)) +
                    attribution (details (analyze_article (Some nlp) text))) +
                absolutism (details (analyze_article (Some nlp) text))) +
            cta (details (analyze_article (Some nlp) text))) / 10)))) \<and>
   1 \<le> bias_score_1_to_10 (analyze_article (Some nlp) text) \<and>
   bias_score_1_to_10 (analyze_article (Some nlp) text) \<le> 10 \<and>
   (\<exists>k::int. bias_score_1_to_10 (analyze_article (Some nlp) text) = fl (of_int k / 10))"
proof -
  define total where "total =
    fl (fl (fl (metric_subjectivity (nlp (take 5000 text)) 30 +
                metric_attribution_balance (nlp (take 5000 text)) 30) +
            metric_absolutism (nlp (take 5000 text)) 20) +
        metric_call_to_action (nlp (take 5000 text)) 20)"
  have score: "bias_score_1_to_10 (analyze_article (Some nlp) text) =
      max 1 (min 10 (py_round1 (fl (total / 10))))"
    by (simp add: analyze_article_def Let_def total_def)
  obtain k :: int where k: "py_round1 (fl (total / 10)) = fl (of_int k / 10)"
    using py_round1_tenth by blast
  have tenth: "\<exists>j::int. bias_score_1_to_10 (analyze_article (Some nlp) text) = fl (of_int j / 10)"
    unfolding score k by (rule clamp_tenth)
  have "details (analyze_article (Some nlp) text) =
     Metrics (metric_subjectivity (nlp (take 5000 text)) 30)
             (metric_attribution_balance (nlp (take 5000 text)) 30)
             (metric_absolutism (nlp (take 5000 text)) 20)
             (metric_call_to_action (nlp (take 5000 text)) 20)"
    by (simp add: analyze_article_def Let_def)
  moreover have "bias_score_1_to_10 (analyze_article (Some nlp) text) =
     max 1 (min 10 (py_round1 (fl
       (fl (fl (fl (subjectivity (details (analyze_article (Some nlp) text)) +
                    attribution (details (analyze_article (Some nlp) text))) +
                absolutism (details (analyze_article (Some nlp) text))) +
            cta (details (analyze_article (Some nlp) text))) / 10))))"
    by (simp add: analyze_article_def Let_def)
  moreover have "1 \<le> bias_score_1_to_10 (analyze_article (Some nlp) text)"
    "bias_score_1_to_10 (analyze_article (Some nlp) text) \<le> 10"
    unfolding score by simp_all
  ultimately show ?thesis using tenth by blast
qed

text \<open>One adjective among eighty nouns with no attributed speaker: the sub-scores are
  1.5 and 30, their sum divided by 10 is the double \<open>3.15\<close>, and the score is 3.1. Three
  attributed speakers and nothing else: the sum is 0 and the score is clamped to 1.\<close>

theorem bias_score_clamped_witness:
  "details (analyze_article (Some (\<lambda>t. adjective_doc)) ''great tax tax tax'') =
     Metrics 1.5 30 0 0 \<and>
   fl (fl (fl (fl (1.5 + 30) + 0) + 0) / 10) = fl 3.15 \<and>
   bias_score_1_to_10 (analyze_article (Some (\<lambda>t. adjective_doc)) ''great tax tax tax'') = fl 3.1 \<and>
   details (analyze_article (Some (\<lambda>t. demo_doc)) ''Alice, Bob and Carol said so.'') =
     Metrics 0 0 0 0 \<and>
   bias_score_1_to_10 (analyze_article (Some (\<lambda>t. demo_doc)) ''Alice, Bob and Carol said so.'') = 1"
proof -
  from bias_score_clamped [of "\<lambda>t. adjective_doc" "''great tax tax tax''"]
  have lower: "1 \<le> bias_score_1_to_10
      (analyze_article (Some (\<lambda>t. adjective_doc)) ''great tax tax tax'')"
    by blast
  from bias_score_clamped [of "\<lambda>t. demo_doc" "''Alice, Bob and Carol said so.''"]
  have upper: "bias_score_1_to_10
      (analyze_article (Some (\<lambda>t. demo_doc)) ''Alice, Bob and Carol said so.'') \<le> 10"
    by blast
  from lower upper adjective_total show ?thesis
    by (simp add: demo_analysis adjective_analysis)
qed

end
